theory Spec2Isabelle
  imports Complex_Main "HOL-Library.Char_ord" "HOL-Library.List_Lexorder"
begin

section \<open>Data model\<close>

text \<open>
  The finance layer of \<^verbatim>\<open>agent/tools.py\<close> works on four pandas frames held by a
  \<^verbatim>\<open>FinanceData\<close> object. A frame is modelled as the list of its rows, a row as a record
  of the columns the code reads.

  \<^item> A first-of-month timestamp is the number of its month, \<open>12 * year + (month - 1)\<close>, an
    \<open>int\<close>; the bounds of pandas' nanosecond timestamps are not modelled.
  \<^item> A float is a \<open>real\<close>: rounding and overflow are not modelled. Where the code can
    meet NaN (a blank rate, a month missing after \<^verbatim>\<open>reindex\<close>, the mean of nothing) the
    value is a \<open>real option\<close> and \<open>None\<close> is NaN.
  \<^item> A Python exception is a value \<open>Inl e\<close> of the result.
  \<^item> Strings are byte strings; \<^verbatim>\<open>str.lower\<close> acts on the ASCII letters.
\<close>

datatype py_error = ParserError | ValueError | KeyError | AttributeError

type_synonym 'a result = "py_error + 'a"

type_synonym nanfloat = "real option"

record dated =
  date :: int
  entity :: string

text \<open>A row of \<^verbatim>\<open>actuals\<close> or \<^verbatim>\<open>budget\<close> after the renames of \<^verbatim>\<open>__init__\<close>.\<close>

record amount_row = dated +
  category :: string
  currency :: string
  amount :: real

text \<open>
  A row of \<^verbatim>\<open>cash\<close>. The sheet gives the balance as \<^verbatim>\<open>cash_usd\<close> and need not have a
  \<^verbatim>\<open>currency\<close> column: \<open>None\<close> is the absent column.
\<close>

record cash_row = dated +
  cash_currency :: "string option"
  cash_balance :: real

text \<open>A row of \<^verbatim>\<open>fx\<close>; the rate is not coerced by \<^verbatim>\<open>__init__\<close>, so it may be NaN.\<close>

record fx_row =
  fx_date :: int
  fx_currency :: string
  fx_usd_rate :: nanfloat

text \<open>
  \<^verbatim>\<open>fx_map\<close>: the pivoted frame, one column per currency, every column over the same
  sorted index of months.
\<close>

type_synonym fx_table = "(string \<times> (int \<times> nanfloat) list) list"

record finance_data =
  actuals :: "amount_row list"
  budget :: "amount_row list"
  cash :: "cash_row list"
  fx_map :: fx_table

section \<open>Series operations of pandas\<close>

text \<open>\<^verbatim>\<open>Series.ffill\<close>: a NaN takes the last value seen before it, if any.\<close>

fun ffill_from :: "nanfloat \<Rightarrow> ('k \<times> nanfloat) list \<Rightarrow> ('k \<times> nanfloat) list" where
  "ffill_from prev [] = []"
| "ffill_from prev ((k, None) # xs) = (k, prev) # ffill_from prev xs"
| "ffill_from prev ((k, Some v) # xs) = (k, Some v) # ffill_from (Some v) xs"

definition ffill :: "('k \<times> nanfloat) list \<Rightarrow> ('k \<times> nanfloat) list" where
  "ffill xs = ffill_from None xs"

text \<open>\<^verbatim>\<open>Series.bfill\<close>: a NaN takes the next value after it, if any.\<close>

definition bfill :: "('k \<times> nanfloat) list \<Rightarrow> ('k \<times> nanfloat) list" where
  "bfill xs = rev (ffill_from None (rev xs))"

text \<open>\<^verbatim>\<open>Series.sum\<close> skips NaN; the sum of nothing is 0.\<close>

definition nan_to_zero :: "nanfloat \<Rightarrow> real" where
  "nan_to_zero x = (case x of None \<Rightarrow> 0 | Some v \<Rightarrow> v)"

definition sum_skipna :: "nanfloat list \<Rightarrow> real" where
  "sum_skipna xs = sum_list (map nan_to_zero xs)"

text \<open>Float multiplication and subtraction, NaN absorbing.\<close>

definition nan_mul :: "nanfloat \<Rightarrow> nanfloat \<Rightarrow> nanfloat" where
  "nan_mul a b = (case (a, b) of (Some x, Some y) \<Rightarrow> Some (x * y) | _ \<Rightarrow> None)"

definition nan_sub :: "nanfloat \<Rightarrow> nanfloat \<Rightarrow> nanfloat" where
  "nan_sub a b = (case (a, b) of (Some x, Some y) \<Rightarrow> Some (x - y) | _ \<Rightarrow> None)"

section \<open>The FX table\<close>

text \<open>
  \<^verbatim>\<open>fx.pivot(index="date", columns="currency", values="usd_rate")\<close> raises
  \<^verbatim>\<open>ValueError\<close> when two rows have the same month and currency. Otherwise its index is
  the sorted months, its columns the sorted currencies, and a cell is the rate of the row
  with that month and currency, NaN when there is none.
\<close>

definition fx_cell :: "fx_row list \<Rightarrow> int \<Rightarrow> string \<Rightarrow> nanfloat" where
  "fx_cell fx d c =
     (case find (\<lambda>r. fx_date r = d \<and> fx_currency r = c) fx of
        None \<Rightarrow> None
      | Some r \<Rightarrow> fx_usd_rate r)"

definition pivot :: "fx_row list \<Rightarrow> fx_table result" where
  "pivot fx =
     (if \<not> distinct (map (\<lambda>r. (fx_date r, fx_currency r)) fx) then Inl ValueError
      else Inr (map (\<lambda>c. (c, map (\<lambda>d. (d, fx_cell fx d c)) (sort (remdups (map fx_date fx)))))
                    (sort (remdups (map fx_currency fx)))))"

text \<open>
  The last two lines of \<^verbatim>\<open>__init__\<close>:
  \<^verbatim>\<open>fx.sort_values("date")\<close>, then the pivot, \<^verbatim>\<open>sort_index\<close> (the index is sorted
  already), and \<^verbatim>\<open>ffill().bfill()\<close> down every column.
\<close>

definition build_fx_map :: "fx_row list \<Rightarrow> fx_table result" where
  "build_fx_map fx =
     (case pivot (sort_key fx_date fx) of
        Inl e \<Rightarrow> Inl e
      | Inr t \<Rightarrow> Inr (map (\<lambda>(c, col). (c, bfill (ffill col))) t))"

text \<open>\<^verbatim>\<open>fx_map.loc[d, c]\<close>: \<^verbatim>\<open>KeyError\<close> unless \<open>d\<close> is in the index and \<open>c\<close> a column.\<close>

definition loc :: "fx_table \<Rightarrow> int \<Rightarrow> string \<Rightarrow> nanfloat result" where
  "loc t d c =
     (case map_of t c of
        None \<Rightarrow> Inl KeyError
      | Some col \<Rightarrow> (case map_of col d of None \<Rightarrow> Inl KeyError | Some v \<Rightarrow> Inr v))"

text \<open>The key \<open>(d, c)\<close> is in the table: \<open>c\<close> is a column and \<open>d\<close> is in the index.\<close>

definition fx_has_key :: "fx_table \<Rightarrow> int \<Rightarrow> string \<Rightarrow> bool" where
  "fx_has_key t d c = (case map_of t c of None \<Rightarrow> False | Some col \<Rightarrow> d \<in> fst ` set col)"

section \<open>Conversion to USD\<close>

record 'r converted =
  src :: 'r
  usd_rate :: nanfloat
  amount_usd :: nanfloat

text \<open>
  \<^verbatim>\<open>lookup_rate\<close>: any exception of the lookup, a missing \<^verbatim>\<open>currency\<close> column
  included, gives 1.0; both branches of the handler return 1.0.
\<close>

definition lookup_rate :: "fx_table \<Rightarrow> int \<Rightarrow> string option \<Rightarrow> nanfloat" where
  "lookup_rate t d cur =
     (case cur of
        None \<Rightarrow> Some 1
      | Some c \<Rightarrow> (case loc t d c of Inr v \<Rightarrow> v | Inl e \<Rightarrow> Some 1))"

text \<open>
  \<^verbatim>\<open>_to_usd(df, amount_col, currency_col)\<close>; the two column names are the accessors
  \<open>amount_col\<close> and \<open>currency_col\<close>. The dates of a loaded frame are first-of-month
  already, so the renormalisation of \<^verbatim>\<open>tmp["date"]\<close> changes nothing.
\<close>

definition to_usd ::
  "fx_table \<Rightarrow> ('a dated_scheme \<Rightarrow> real) \<Rightarrow> ('a dated_scheme \<Rightarrow> string option) \<Rightarrow>
   'a dated_scheme list \<Rightarrow> 'a dated_scheme converted list" where
  "to_usd t amount_col currency_col df =
     map (\<lambda>r. \<lparr>src = r,
               usd_rate = lookup_rate t (date r) (currency_col r),
               amount_usd = nan_mul (Some (amount_col r)) (lookup_rate t (date r) (currency_col r))\<rparr>)
         df"

abbreviation amounts_to_usd :: "finance_data \<Rightarrow> amount_row list \<Rightarrow> amount_row converted list" where
  "amounts_to_usd fd df \<equiv> to_usd (fx_map fd) amount (\<lambda>r. Some (currency r)) df"

section \<open>Month strings\<close>

text \<open>
  \<^verbatim>\<open>dateutil.parser.parse\<close> is not part of the repository: it is the parameter \<open>parse\<close>
  of every operation that takes a month string. It returns a \<^verbatim>\<open>datetime\<close> or raises.
\<close>

record datetime =
  year :: int
  month :: int
  day :: int

type_synonym date_parser = "string \<Rightarrow> datetime result"

text \<open>
  \<^verbatim>\<open>pd.Timestamp(year=y, month=m, day=1)\<close>, as the number of the month; pandas raises
  \<^verbatim>\<open>ValueError\<close> for a month outside 1..12.
\<close>

definition Timestamp :: "int \<Rightarrow> int \<Rightarrow> int result" where
  "Timestamp y m = (if 1 \<le> m \<and> m \<le> 12 then Inr (12 * y + (m - 1)) else Inl ValueError)"

definition month_str_to_ts :: "date_parser \<Rightarrow> string \<Rightarrow> int result" where
  "month_str_to_ts parse m =
     (case parse m of Inl e \<Rightarrow> Inl e | Inr dt \<Rightarrow> Timestamp (year dt) (month dt))"

text \<open>
  \<^verbatim>\<open>df["date"].max()\<close> of an empty frame is \<^verbatim>\<open>NaT\<close>, and the
  \<^verbatim>\<open>to_period("M")\<close> that follows raises \<^verbatim>\<open>AttributeError\<close> on it.
\<close>

definition max_date :: "'a dated_scheme list \<Rightarrow> int result" where
  "max_date df = (case df of [] \<Rightarrow> Inl AttributeError | r # rs \<Rightarrow> Inr (fold max (map date rs) (date r)))"

text \<open>
  \<^verbatim>\<open>_month_str_to_ts(m) if m else df["date"].max()\<close>: \<^verbatim>\<open>None\<close> and the empty string
  are both false in Python.
\<close>

definition resolve_month :: "date_parser \<Rightarrow> 'a dated_scheme list \<Rightarrow> string option \<Rightarrow> int result" where
  "resolve_month parse df m =
     (case m of
        None \<Rightarrow> max_date df
      | Some s \<Rightarrow> if s = [] then max_date df else month_str_to_ts parse s)"

text \<open>
  \<^verbatim>\<open>pd.period_range(end=ts.to_period("M"), periods=n, freq="M").to_timestamp()\<close>:
  the \<open>n\<close> months that end with \<open>ts\<close>, oldest first.
\<close>

definition period_range :: "int \<Rightarrow> nat \<Rightarrow> int list" where
  "period_range end_ts n = [end_ts - int n + 1 .. end_ts]"

section \<open>Row filters\<close>

definition lower_char :: "char \<Rightarrow> char" where
  "lower_char c =
     (if CHR ''A'' \<le> c \<and> c \<le> CHR ''Z'' then char_of (of_char c + (32::nat)) else c)"

definition lower :: "string \<Rightarrow> string" where
  "lower s = map lower_char s"

text \<open>\<open>contains s p\<close>: the string \<open>p\<close> occurs in \<open>s\<close> (Python's \<^verbatim>\<open>p in s\<close>).\<close>

fun starts_with :: "string \<Rightarrow> string \<Rightarrow> bool" where
  "starts_with s [] = True"
| "starts_with [] (p # ps) = False"
| "starts_with (c # cs) (p # ps) = (c = p \<and> starts_with cs ps)"

fun contains :: "string \<Rightarrow> string \<Rightarrow> bool" where
  "contains [] p = (p = [])"
| "contains (c # cs) p = (starts_with (c # cs) p \<or> contains cs p)"

text \<open>\<^verbatim>\<open>(df["date"] == ts) & (df["category"].str.lower() == name)\<close>\<close>

definition is_category :: "int \<Rightarrow> string \<Rightarrow> amount_row \<Rightarrow> bool" where
  "is_category ts name r = (date r = ts \<and> lower (category r) = name)"

text \<open>
  \<^verbatim>\<open>(df["date"] == ts) & df["category"].str.lower().str.contains("opex|operating")\<close>;
  the pattern is a regular expression with two alternatives, searched anywhere.
\<close>

definition is_opex :: "int \<Rightarrow> amount_row \<Rightarrow> bool" where
  "is_opex ts r =
     (date r = ts \<and> (contains (lower (category r)) ''opex'' \<or> contains (lower (category r)) ''operating''))"

text \<open>\<^verbatim>\<open>if entity: df = df[df["entity"] == entity]\<close>; the empty string is false.\<close>

definition by_entity :: "string option \<Rightarrow> 'a dated_scheme list \<Rightarrow> 'a dated_scheme list" where
  "by_entity ent df =
     (case ent of
        None \<Rightarrow> df
      | Some e \<Rightarrow> if e = [] then df else filter (\<lambda>r. entity r = e) df)"

text \<open>\<^verbatim>\<open>self._to_usd(df)["amount_usd"].sum()\<close>\<close>

definition usd_sum :: "finance_data \<Rightarrow> amount_row list \<Rightarrow> real" where
  "usd_sum fd df = sum_skipna (map amount_usd (amounts_to_usd fd df))"

section \<open>Analytics\<close>

record rvb_result =
  rvb_month :: int
  actual_usd :: real
  budget_usd :: real

definition revenue_vs_budget ::
  "date_parser \<Rightarrow> finance_data \<Rightarrow> string \<Rightarrow> string option \<Rightarrow> rvb_result result" where
  "revenue_vs_budget parse fd m ent =
     (case month_str_to_ts parse m of
        Inl e \<Rightarrow> Inl e
      | Inr ts \<Rightarrow>
          Inr \<lparr>rvb_month = ts,
               actual_usd = usd_sum fd (by_entity ent (filter (is_category ts ''revenue'') (actuals fd))),
               budget_usd = usd_sum fd (by_entity ent (filter (is_category ts ''revenue'') (budget fd)))\<rparr>)"

record usd_sums =
  revenue_usd :: real
  cogs_usd :: real

record gm_row = usd_sums +
  gm_date :: int
  gross_margin_pct :: "real option"

text \<open>The body of the loop of \<^verbatim>\<open>gross_margin_trend\<close>; \<open>None\<close> is Python's \<^verbatim>\<open>None\<close>.\<close>

definition gm_row_of :: "finance_data \<Rightarrow> int \<Rightarrow> gm_row" where
  "gm_row_of fd ts =
     (let rev_usd = usd_sum fd (filter (is_category ts ''revenue'') (actuals fd));
          cogs = usd_sum fd (filter (is_category ts ''cogs'') (actuals fd))
      in \<lparr>revenue_usd = rev_usd, cogs_usd = cogs, gm_date = ts,
          gross_margin_pct = (if rev_usd = 0 then None else Some ((rev_usd - cogs) / rev_usd))\<rparr>)"

definition gross_margin_trend ::
  "date_parser \<Rightarrow> finance_data \<Rightarrow> nat \<Rightarrow> string option \<Rightarrow> gm_row list result" where
  "gross_margin_trend parse fd months end_month =
     (case resolve_month parse (actuals fd) end_month of
        Inl e \<Rightarrow> Inl e
      | Inr end_ts \<Rightarrow> Inr (map (gm_row_of fd) (period_range end_ts months)))"

record opex_row =
  account :: string
  total_usd :: real

text \<open>
  \<^verbatim>\<open>groupby("category")["amount_usd"].sum().reset_index()\<close>: one row per category as
  written in the data, in the order of the keys, the sum skipping NaN.
\<close>

definition groupby_sum :: "amount_row converted list \<Rightarrow> opex_row list" where
  "groupby_sum rows =
     map (\<lambda>k. \<lparr>account = k,
                total_usd = sum_skipna (map amount_usd (filter (\<lambda>r. category (src r) = k) rows))\<rparr>)
         (sort (remdups (map (\<lambda>r. category (src r)) rows)))"

text \<open>
  \<^verbatim>\<open>sort_values("amount_usd", ascending=False)\<close>. pandas does not promise an order
  among equal amounts; the model keeps theirs.
\<close>

definition sort_values_desc :: "opex_row list \<Rightarrow> opex_row list" where
  "sort_values_desc rows = sort_key (\<lambda>r. - total_usd r) rows"

definition opex_breakdown ::
  "date_parser \<Rightarrow> finance_data \<Rightarrow> string \<Rightarrow> string option \<Rightarrow> opex_row list result" where
  "opex_breakdown parse fd m ent =
     (case month_str_to_ts parse m of
        Inl e \<Rightarrow> Inl e
      | Inr ts \<Rightarrow>
          Inr (sort_values_desc
                 (groupby_sum (amounts_to_usd fd (by_entity ent (filter (is_opex ts) (actuals fd)))))))"

record ebitda_result = usd_sums +
  ebitda_month :: int
  ebitda_usd :: real
  opex_usd :: real

definition ebitda_proxy ::
  "date_parser \<Rightarrow> finance_data \<Rightarrow> string \<Rightarrow> string option \<Rightarrow> ebitda_result result" where
  "ebitda_proxy parse fd m ent =
     (case month_str_to_ts parse m of
        Inl e \<Rightarrow> Inl e
      | Inr ts \<Rightarrow>
          (let rev_usd = usd_sum fd (by_entity ent (filter (is_category ts ''revenue'') (actuals fd)));
               cogs = usd_sum fd (by_entity ent (filter (is_category ts ''cogs'') (actuals fd)));
               opex = usd_sum fd (by_entity ent (filter (is_opex ts) (actuals fd)))
           in Inr \<lparr>revenue_usd = rev_usd, cogs_usd = cogs, ebitda_month = ts,
                   ebitda_usd = rev_usd - cogs - opex, opex_usd = opex\<rparr>))"

text \<open>
  What the entity filter keeps: with no entity, or the empty string, every row.
\<close>

definition entity_matches :: "string option \<Rightarrow> 'a dated_scheme \<Rightarrow> bool" where
  "entity_matches ent r = (case ent of None \<Rightarrow> True | Some e \<Rightarrow> e = [] \<or> entity r = e)"

text \<open>
  The value of \<^verbatim>\<open>runway_months\<close>: a Python float, which may be \<^verbatim>\<open>inf\<close> or NaN.
\<close>

datatype pyfloat = Fin real | PosInf | NaN

record runway_result =
  as_of :: int
  current_cash_usd :: nanfloat
  avg_monthly_burn_usd :: real
  runway_months :: pyfloat

text \<open>
  \<^verbatim>\<open>c_usd.set_index("date").reindex(months)\<close>: pandas raises \<^verbatim>\<open>ValueError\<close>
  (cannot reindex on an axis with duplicate labels) when two rows of the frame have the
  same date and there is a label to look up. Otherwise row \<open>m\<close> of the result is the
  row dated \<open>m\<close>, or a row of NaN when there is none.
\<close>

definition reindex ::
  "'a dated_scheme converted list \<Rightarrow> int list \<Rightarrow> 'a dated_scheme converted option list result" where
  "reindex df months =
     (if \<not> distinct (map (\<lambda>r. date (src r)) df) \<and> months \<noteq> [] then Inl ValueError
      else Inr (map (\<lambda>m. find (\<lambda>r. date (src r) = m) df) months))"

text \<open>\<^verbatim>\<open>cs["cash_balance"] * cs["usd_rate"]\<close> on one row of the reindexed frame.\<close>

definition row_balance_usd :: "cash_row converted option \<Rightarrow> nanfloat" where
  "row_balance_usd row =
     (case row of None \<Rightarrow> None | Some r \<Rightarrow> nan_mul (Some (cash_balance (src r))) (usd_rate r))"

text \<open>\<^verbatim>\<open>Series.shift(1)\<close>, \<^verbatim>\<open>Series.dropna()\<close> and \<^verbatim>\<open>Series.mean()\<close>; the mean of nothing is NaN.\<close>

definition shift1 :: "nanfloat list \<Rightarrow> nanfloat list" where
  "shift1 xs = (if xs = [] then [] else None # butlast xs)"

definition dropna :: "nanfloat list \<Rightarrow> real list" where
  "dropna xs = List.map_filter id xs"

definition mean :: "real list \<Rightarrow> nanfloat" where
  "mean xs = (if xs = [] then None else Some (sum_list xs / real (length xs)))"

text \<open>
  \<^verbatim>\<open>cash_runway_months\<close>. The comparison \<^verbatim>\<open>avg_burn <= 0\<close> is false on NaN, which
  \<^verbatim>\<open>np.isnan\<close> then catches.
\<close>

definition cash_runway_months ::
  "date_parser \<Rightarrow> finance_data \<Rightarrow> string option \<Rightarrow> string option \<Rightarrow> runway_result result" where
  "cash_runway_months parse fd as_of_month ent =
     (case resolve_month parse (cash fd) as_of_month of
        Inl e \<Rightarrow> Inl e
      | Inr ts \<Rightarrow>
          (let months = period_range ts 3;
               c_usd = to_usd (fx_map fd) cash_balance cash_currency (by_entity ent (cash fd))
           in case reindex c_usd months of
                Inl e \<Rightarrow> Inl e
              | Inr cs \<Rightarrow>
                  (let cash_balance_usd = map snd (bfill (ffill (zip months (map row_balance_usd cs))));
                       prev = shift1 cash_balance_usd;
                       net_burn = map2 nan_sub prev cash_balance_usd;
                       avg_burn = mean (dropna net_burn);
                       current_cash = last cash_balance_usd;
                       runway = (case avg_burn of
                                   None \<Rightarrow> PosInf
                                 | Some b \<Rightarrow>
                                     if b \<le> 0 then PosInf
                                     else (case current_cash of None \<Rightarrow> NaN | Some c \<Rightarrow> Fin (c / b)))
                   in Inr \<lparr>as_of = ts, current_cash_usd = current_cash,
                           avg_monthly_burn_usd = (case avg_burn of None \<Rightarrow> 0 | Some b \<Rightarrow> b),
                           runway_months = runway\<rparr>)))"

text \<open>
  The specification's reading of one slot of the window: the USD balance of the cash row
  of month \<open>m\<close> that passes the entity filter, NaN when there is no such row.
\<close>

definition month_balance_usd :: "finance_data \<Rightarrow> string option \<Rightarrow> int \<Rightarrow> nanfloat" where
  "month_balance_usd fd ent m =
     (case find (\<lambda>r. date r = m) (by_entity ent (cash fd)) of
        None \<Rightarrow> None
      | Some r \<Rightarrow> nan_mul (Some (cash_balance r)) (lookup_rate (fx_map fd) m (cash_currency r)))"

section \<open>The question classifier\<close>

text \<open>
  \<^verbatim>\<open>classify\<close> of \<^verbatim>\<open>agent/planner.py\<close>. \<^verbatim>\<open>str.strip\<close> removes the white space at
  both ends: the characters 9 to 13 and 28 to 32.
\<close>

definition is_space :: "char \<Rightarrow> bool" where
  "is_space c = (let n = (of_char c :: nat) in (9 \<le> n \<and> n \<le> 13) \<or> (28 \<le> n \<and> n \<le> 32))"

definition strip :: "string \<Rightarrow> string" where
  "strip s = rev (dropWhile is_space (rev (dropWhile is_space s)))"

definition is_alpha :: "char \<Rightarrow> bool" where
  "is_alpha c = ((CHR ''a'' \<le> c \<and> c \<le> CHR ''z'') \<or> (CHR ''A'' \<le> c \<and> c \<le> CHR ''Z''))"

definition is_digit :: "char \<Rightarrow> bool" where
  "is_digit c = (CHR ''0'' \<le> c \<and> c \<le> CHR ''9'')"

text \<open>\<^verbatim>\<open>\d{n}\<close> at the start of \<open>s\<close>.\<close>

definition digits_at :: "nat \<Rightarrow> string \<Rightarrow> bool" where
  "digits_at n s = (n \<le> length s \<and> list_all is_digit (take n s))"

text \<open>
  The first alternative of the month pattern, \<^verbatim>\<open>[a-zA-Z]{3,9} \d{4}\<close>, at the start of
  \<open>s\<close>: the repetition is greedy, so the matcher tries 9 letters first and gives letters
  back down to 3. The result is the matched text.
\<close>

definition match_name_year :: "string \<Rightarrow> string option" where
  "match_name_year s =
     (case filter (\<lambda>k. k \<le> length s \<and> list_all is_alpha (take k s) \<and>
                        starts_with (drop k s) '' '' \<and> digits_at 4 (drop (k + 1) s))
                  (rev [3 ..< 10]) of
        [] \<Rightarrow> None
      | k # ks \<Rightarrow> Some (take (k + 5) s))"

text \<open>The second alternative, \<^verbatim>\<open>\d{4}-\d{2}(?:-\d{2})?\<close>; the optional group is greedy.\<close>

definition match_iso :: "string \<Rightarrow> string option" where
  "match_iso s =
     (if digits_at 4 s \<and> starts_with (drop 4 s) ''-'' \<and> digits_at 2 (drop 5 s)
      then (if starts_with (drop 7 s) ''-'' \<and> digits_at 2 (drop 8 s) then Some (take 10 s)
            else Some (take 7 s))
      else None)"

definition match_month :: "string \<Rightarrow> string option" where
  "match_month s = (case match_name_year s of Some m \<Rightarrow> Some m | None \<Rightarrow> match_iso s)"

text \<open>
  \<^verbatim>\<open>last (\d+) months\<close> at the start of \<open>s\<close>, giving group 1. The digits are followed by
  a space, so the greedy run of all the digits is the only one that can match.
\<close>

definition match_last_months :: "string \<Rightarrow> string option" where
  "match_last_months s =
     (if starts_with s ''last '' \<and> takeWhile is_digit (drop 5 s) \<noteq> [] \<and>
         starts_with (dropWhile is_digit (drop 5 s)) '' months''
      then Some (takeWhile is_digit (drop 5 s))
      else None)"

text \<open>\<^verbatim>\<open>re.search\<close>: the match at the leftmost position that has one.\<close>

fun re_search :: "(string \<Rightarrow> 'a option) \<Rightarrow> string \<Rightarrow> 'a option" where
  "re_search p [] = p []"
| "re_search p (c # cs) = (case p (c # cs) of Some m \<Rightarrow> Some m | None \<Rightarrow> re_search p cs)"

text \<open>
  \<^verbatim>\<open>int\<close> of a string of digits. Python's integers are unbounded, but CPython 3.11
  and later refuse to convert a string of more than \<^verbatim>\<open>sys.get_int_max_str_digits()\<close>
  digits, 4300 unless the interpreter is configured otherwise, and raise
  \<^verbatim>\<open>ValueError\<close>.
\<close>

definition int_max_str_digits :: nat where
  "int_max_str_digits = 4300"

definition int_of_digits :: "string \<Rightarrow> int result" where
  "int_of_digits ds =
     (if int_max_str_digits < length ds then Inl ValueError
      else Inr (foldl (\<lambda>n c. 10 * n + int (of_char c - (48::nat))) 0 ds))"

text \<open>The values of the parameter dictionary, which is the list of its items.\<close>

datatype pyval = PyNone | PyStr string | PyInt int

definition opt_str :: "string option \<Rightarrow> pyval" where
  "opt_str m = (case m of None \<Rightarrow> PyNone | Some s \<Rightarrow> PyStr s)"

text \<open>
  \<^verbatim>\<open>classify\<close>; the only call of its body that can raise is the \<^verbatim>\<open>int\<close> of the
  gross margin branch.
\<close>

definition classify :: "string \<Rightarrow> (string \<times> (string \<times> pyval) list) result" where
  "classify question =
     (let q = strip (lower question);
          month = opt_str (re_search match_month q)
      in if contains q ''revenue'' \<and> contains q ''budget''
         then Inr (''revenue_vs_budget'', [(''month'', month)])
         else if contains q ''gross margin'' \<or> contains q ''gross margin %'' \<or>
                 contains q ''gross margin percent''
         then (case (case re_search match_last_months q of
                       Some ds \<Rightarrow> int_of_digits ds
                     | None \<Rightarrow> Inr 3) of
                 Inl e \<Rightarrow> Inl e
               | Inr months \<Rightarrow>
                   Inr (''gross_margin_trend'', [(''months'', PyInt months), (''end_month'', month)]))
         else if contains q ''opex'' \<or> contains q ''operating expense''
         then Inr (''opex_breakdown'', [(''month'', month)])
         else if contains q ''cash runway'' \<or> contains q ''runway''
         then Inr (''cash_runway'', [(''as_of'', month)])
         else if contains q ''ebitda'' \<or> contains q ''earnings'' \<or> contains q ''operating profit''
         then Inr (''ebitda_proxy'', [(''month'', month)])
         else Inr (''unknown'', []))"

section \<open>Loading the workbook\<close>

text \<open>
  \<^verbatim>\<open>FinanceData.__init__\<close> reads four sheets of a workbook. A sheet is modelled by the
  columns the code names, each present or not, under their names in the sheet; the
  label columns hold text and the rate column floats, as the rows of the data model have
  them, and the month and the numeric columns hold raw cells. \<open>Stamp m\<close> is a date cell
  of the month \<open>m\<close>.
\<close>

datatype cell = Num real | Txt string | Stamp int | Blank

record sheet =
  col_month :: "cell list option"
  col_entity :: "string list option"
  col_account_category :: "string list option"
  col_currency :: "string list option"
  col_amount :: "cell list option"
  col_cash_usd :: "cell list option"
  col_rate_to_usd :: "nanfloat list option"

text \<open>The workbook: \<open>None\<close> is a sheet that the file does not have.\<close>

record workbook =
  ws_actuals :: "sheet option"
  ws_budget :: "sheet option"
  ws_cash :: "sheet option"
  ws_fx :: "sheet option"

text \<open>
  The two conversions of pandas are parameters.
  \<^verbatim>\<open>pd.to_datetime(col).dt.to_period("M").dt.to_timestamp()\<close> gives the months of the
  cells or raises when a cell cannot be read as a date; a blank date is not modelled.
  \<^verbatim>\<open>pd.to_numeric(col, errors="coerce")\<close> gives the numbers of the cells, NaN for a
  cell that is no number, and raises on none.
\<close>

record pandas =
  to_datetime :: "cell list \<Rightarrow> int list result"
  to_numeric :: "cell list \<Rightarrow> nanfloat list"

text \<open>
  A frame after the renames: the converted \<^verbatim>\<open>date\<close> column in place of \<^verbatim>\<open>month\<close>, and
  the other columns, which the renames only give new names (\<^verbatim>\<open>category\<close>,
  \<^verbatim>\<open>cash_balance\<close>, \<^verbatim>\<open>usd_rate\<close>).
\<close>

record frame =
  fr_date :: "int list"
  fr_cols :: sheet

record loaded =
  ld_actuals :: frame
  ld_budget :: frame
  ld_cash :: frame
  ld_fx :: "fx_row list"
  ld_fx_map :: fx_table

text \<open>
  \<^verbatim>\<open>pd.read_excel(xls, name, parse_dates=["month"])\<close> raises \<^verbatim>\<open>ValueError\<close> for a
  sheet that is not in the file and for a sheet without the column \<^verbatim>\<open>month\<close>. Its own
  attempt at the dates leaves the column as it is when it cannot convert it, so the
  result is the raw month column and the rest of the sheet.
\<close>

definition read_excel :: "sheet option \<Rightarrow> (cell list \<times> sheet) result" where
  "read_excel ws =
     (case ws of
        None \<Rightarrow> Inl ValueError
      | Some sh \<Rightarrow>
          (case col_month sh of
             None \<Rightarrow> Inl ValueError
           | Some m \<Rightarrow> Inr (m, sh\<lparr>col_month := None\<rparr>)))"

text \<open>The loop that normalises \<^verbatim>\<open>df["date"]\<close> to the first of the month.\<close>

definition normalise_dates :: "pandas \<Rightarrow> cell list \<times> sheet \<Rightarrow> frame result" where
  "normalise_dates p df =
     (case to_datetime p (fst df) of
        Inl e \<Rightarrow> Inl e
      | Inr ds \<Rightarrow> Inr \<lparr>fr_date = ds, fr_cols = snd df\<rparr>)"

text \<open>\<^verbatim>\<open>pd.to_numeric(col, errors="coerce").fillna(0)\<close>\<close>

definition coerce :: "pandas \<Rightarrow> cell list \<Rightarrow> cell list" where
  "coerce p col = map (\<lambda>x. Num (nan_to_zero x)) (to_numeric p col)"

text \<open>
  On \<^verbatim>\<open>actuals\<close> and \<^verbatim>\<open>budget\<close> the column \<^verbatim>\<open>amount\<close> is read without a test, a
  \<^verbatim>\<open>KeyError\<close> when it is absent; on \<^verbatim>\<open>cash\<close> the balance is coerced only if present.
\<close>

definition coerce_amount :: "pandas \<Rightarrow> frame \<Rightarrow> frame result" where
  "coerce_amount p f =
     (case col_amount (fr_cols f) of
        None \<Rightarrow> Inl KeyError
      | Some col \<Rightarrow> Inr (f\<lparr>fr_cols := (fr_cols f)\<lparr>col_amount := Some (coerce p col)\<rparr>\<rparr>))"

definition coerce_cash :: "pandas \<Rightarrow> frame \<Rightarrow> frame" where
  "coerce_cash p f =
     (case col_cash_usd (fr_cols f) of
        None \<Rightarrow> f
      | Some col \<Rightarrow> f\<lparr>fr_cols := (fr_cols f)\<lparr>col_cash_usd := Some (coerce p col)\<rparr>\<rparr>)"

text \<open>
  The three columns of \<^verbatim>\<open>fx\<close> that \<^verbatim>\<open>pivot\<close> reads, as rows; \<^verbatim>\<open>pivot\<close> raises
  \<^verbatim>\<open>KeyError\<close> when \<^verbatim>\<open>currency\<close> or \<^verbatim>\<open>usd_rate\<close> is not a column.
\<close>

definition fx_rows :: "frame \<Rightarrow> fx_row list result" where
  "fx_rows f =
     (case col_currency (fr_cols f) of
        None \<Rightarrow> Inl KeyError
      | Some cs \<Rightarrow>
          (case col_rate_to_usd (fr_cols f) of
             None \<Rightarrow> Inl KeyError
           | Some rs \<Rightarrow>
               Inr (map (\<lambda>(d, c, r). \<lparr>fx_date = d, fx_currency = c, fx_usd_rate = r\<rparr>)
                        (zip (fr_date f) (zip cs rs)))))"

text \<open>Sequencing: the first exception ends the constructor.\<close>

definition and_then :: "'a result \<Rightarrow> ('a \<Rightarrow> 'b result) \<Rightarrow> 'b result" where
  "and_then r f = (case r of Inl e \<Rightarrow> Inl e | Inr x \<Rightarrow> f x)"

text \<open>\<^verbatim>\<open>FinanceData.__init__\<close>, statement by statement.\<close>

definition load :: "pandas \<Rightarrow> workbook \<Rightarrow> loaded result" where
  "load p wb =
     and_then (read_excel (ws_actuals wb)) (\<lambda>a0.
     and_then (read_excel (ws_budget wb)) (\<lambda>b0.
     and_then (read_excel (ws_cash wb)) (\<lambda>c0.
     and_then (read_excel (ws_fx wb)) (\<lambda>x0.
     and_then (normalise_dates p a0) (\<lambda>a1.
     and_then (normalise_dates p b0) (\<lambda>b1.
     and_then (normalise_dates p c0) (\<lambda>c1.
     and_then (normalise_dates p x0) (\<lambda>x1.
     and_then (coerce_amount p a1) (\<lambda>a2.
     and_then (coerce_amount p b1) (\<lambda>b2.
     and_then (fx_rows x1) (\<lambda>rows.
     and_then (build_fx_map (sort_key fx_date rows)) (\<lambda>t.
       Inr \<lparr>ld_actuals = a2, ld_budget = b2, ld_cash = coerce_cash p c1,
            ld_fx = sort_key fx_date rows, ld_fx_map = t\<rparr>))))))))))))"

text \<open>
  The specification's condition: every table is in the workbook, with the columns the
  constructor reads.
\<close>

definition has_columns :: "sheet option \<Rightarrow> (sheet \<Rightarrow> bool) \<Rightarrow> bool" where
  "has_columns ws cols = (case ws of None \<Rightarrow> False | Some sh \<Rightarrow> col_month sh \<noteq> None \<and> cols sh)"

definition required_present :: "workbook \<Rightarrow> bool" where
  "required_present wb =
     (has_columns (ws_actuals wb) (\<lambda>sh. col_amount sh \<noteq> None) \<and>
      has_columns (ws_budget wb) (\<lambda>sh. col_amount sh \<noteq> None) \<and>
      has_columns (ws_cash wb) (\<lambda>sh. True) \<and>
      has_columns (ws_fx wb) (\<lambda>sh. col_currency sh \<noteq> None \<and> col_rate_to_usd sh \<noteq> None))"

section \<open>A sample dataset\<close>

text \<open>
  The values of \<^verbatim>\<open>parser.parse\<close> on the month strings of the examples below; June 2025
  is the month 24305.
\<close>

definition sample_parse :: date_parser where
  "sample_parse s =
     (if s = ''June 2025'' then Inr \<lparr>year = 2025, month = 6, day = 1\<rparr>
      else if s = ''2025-06'' then Inr \<lparr>year = 2025, month = 6, day = 1\<rparr>
      else if s = ''2025-06-15'' then Inr \<lparr>year = 2025, month = 6, day = 15\<rparr>
      else if s = ''2025-05'' then Inr \<lparr>year = 2025, month = 5, day = 1\<rparr>
      else Inl ParserError)"

definition sample_fx :: "fx_row list" where
  "sample_fx =
     [\<lparr>fx_date = 24305, fx_currency = ''EUR'', fx_usd_rate = Some (6/5)\<rparr>,
      \<lparr>fx_date = 24303, fx_currency = ''EUR'', fx_usd_rate = Some (11/10)\<rparr>,
      \<lparr>fx_date = 24303, fx_currency = ''USD'', fx_usd_rate = Some 1\<rparr>]"

text \<open>The table \<^verbatim>\<open>__init__\<close> builds from \<open>sample_fx\<close>.\<close>

definition sample_fx_map :: fx_table where
  "sample_fx_map =
     [(''EUR'', [(24303, Some (11/10)), (24305, Some (6/5))]),
      (''USD'', [(24303, Some 1), (24305, Some 1)])]"

definition sample_fd :: finance_data where
  "sample_fd =
     \<lparr>actuals =
        [\<lparr>date = 24305, entity = ''US'', category = ''Revenue'', currency = ''USD'', amount = 120000\<rparr>,
         \<lparr>date = 24305, entity = ''EU'', category = ''Revenue'', currency = ''EUR'', amount = 1000\<rparr>,
         \<lparr>date = 24305, entity = ''US'', category = ''COGS'', currency = ''USD'', amount = 48000\<rparr>,
         \<lparr>date = 24305, entity = ''US'', category = ''Opex:Marketing'', currency = ''USD'', amount = 20000\<rparr>,
         \<lparr>date = 24305, entity = ''EU'', category = ''Opex:Sales'', currency = ''EUR'', amount = 20000\<rparr>,
         \<lparr>date = 24305, entity = ''EU'', category = ''Opex:Marketing'', currency = ''GBP'', amount = 500\<rparr>,
         \<lparr>date = 24304, entity = ''US'', category = ''COGS'', currency = ''USD'', amount = 100\<rparr>,
         \<lparr>date = 24303, entity = ''US'', category = ''Revenue'', currency = ''USD'', amount = 100\<rparr>,
         \<lparr>date = 24303, entity = ''US'', category = ''COGS'', currency = ''USD'', amount = 150\<rparr>],
      budget =
        [\<lparr>date = 24305, entity = ''US'', category = ''Revenue'', currency = ''USD'', amount = 110000\<rparr>],
      cash =
        [\<lparr>date = 24303, entity = ''US'', cash_currency = None, cash_balance = 300\<rparr>,
         \<lparr>date = 24304, entity = ''US'', cash_currency = None, cash_balance = 250\<rparr>,
         \<lparr>date = 24305, entity = ''US'', cash_currency = None, cash_balance = 200\<rparr>],
      fx_map = sample_fx_map\<rparr>"

text \<open>A cash table with two entities: June 2025 has a row for each.\<close>

definition two_entity_fd :: finance_data where
  "two_entity_fd =
     \<lparr>actuals = [], budget = [],
      cash =
        [\<lparr>date = 24304, entity = ''US'', cash_currency = None, cash_balance = 250\<rparr>,
         \<lparr>date = 24305, entity = ''US'', cash_currency = None, cash_balance = 200\<rparr>,
         \<lparr>date = 24305, entity = ''EU'', cash_currency = None, cash_balance = 90\<rparr>],
      fx_map = sample_fx_map\<rparr>"

text \<open>
  A workbook. The conversions of pandas are given on its cells: every month cell is a
  date; a number is itself, a blank and the text \<^verbatim>\<open>n/a\<close> are no numbers.
\<close>

fun stamp_month :: "cell \<Rightarrow> int option" where
  "stamp_month (Stamp m) = Some m"
| "stamp_month c = None"

definition sample_pandas :: pandas where
  "sample_pandas =
     \<lparr>to_datetime = (\<lambda>col. if list_all (\<lambda>c. stamp_month c \<noteq> None) col
                             then Inr (List.map_filter stamp_month col) else Inl ValueError),
      to_numeric = map (\<lambda>c. case c of Num x \<Rightarrow> Some x | _ \<Rightarrow> None)\<rparr>"

definition amounts_sheet :: sheet where
  "amounts_sheet =
     \<lparr>col_month = Some [Stamp 24305, Stamp 24305],
      col_entity = Some [''US'', ''EU''],
      col_account_category = Some [''Revenue'', ''Revenue''],
      col_currency = Some [''USD'', ''EUR''],
      col_amount = Some [Num 120000, Txt ''n/a''],
      col_cash_usd = None,
      col_rate_to_usd = None\<rparr>"

definition cash_sheet :: sheet where
  "cash_sheet =
     \<lparr>col_month = Some [Stamp 24304, Stamp 24305],
      col_entity = Some [''US'', ''US''],
      col_account_category = None,
      col_currency = None,
      col_amount = None,
      col_cash_usd = Some [Num 250, Blank],
      col_rate_to_usd = None\<rparr>"

text \<open>An \<^verbatim>\<open>fx\<close> sheet of three rows, for June, April and April 2025.\<close>

definition fx_sheet :: "string list \<Rightarrow> nanfloat list \<Rightarrow> sheet" where
  "fx_sheet curs rates =
     \<lparr>col_month = Some [Stamp 24305, Stamp 24303, Stamp 24303],
      col_entity = None,
      col_account_category = None,
      col_currency = Some curs,
      col_amount = None,
      col_cash_usd = None,
      col_rate_to_usd = Some rates\<rparr>"

definition sample_wb :: workbook where
  "sample_wb =
     \<lparr>ws_actuals = Some amounts_sheet, ws_budget = Some amounts_sheet, ws_cash = Some cash_sheet,
      ws_fx = Some (fx_sheet [''EUR'', ''EUR'', ''USD''] [Some (6/5), Some (11/10), Some 1])\<rparr>"

text \<open>The same workbook with two EUR rates for April 2025.\<close>

definition two_rates_wb :: workbook where
  "two_rates_wb =
     \<lparr>ws_actuals = Some amounts_sheet, ws_budget = Some amounts_sheet, ws_cash = Some cash_sheet,
      ws_fx = Some (fx_sheet [''EUR'', ''EUR'', ''EUR''] [Some (6/5), Some (11/10), Some (23/20)])\<rparr>"

section \<open>Verified properties\<close>

subsection \<open>Shared lemmas\<close>

lemma sample_fx_map_built: "build_fx_map sample_fx = Inr sample_fx_map"
  by code_simp

lemma by_entity_filter: "by_entity ent df = filter (entity_matches ent) df"
proof (cases ent)
  case None
  then show ?thesis by (simp add: by_entity_def entity_matches_def)
next
  case (Some e)
  show ?thesis
  proof (cases "e = []")
    case True
    with Some show ?thesis by (simp add: by_entity_def entity_matches_def)
  next
    case False
    have "filter (\<lambda>r. entity r = e) df = filter (entity_matches (Some e)) df"
      using False by (intro filter_cong) (simp_all add: entity_matches_def)
    with Some False show ?thesis by (simp add: by_entity_def)
  qed
qed

lemma usd_sum_Nil: "usd_sum fd [] = 0"
  by (simp add: usd_sum_def sum_skipna_def to_usd_def)

subsection \<open>Revenue against budget\<close>

text \<open>
  Claim C8. When the month resolves, \<open>revenue_vs_budget\<close> returns a result, and a side
  (actuals or budget) with no revenue row of that month passing the entity filter is
  reported as 0.
\<close>

theorem revenue_vs_budget_no_rows:
  assumes "month_str_to_ts parse m = Inr ts"
  shows "\<exists>res. revenue_vs_budget parse fd m ent = Inr res \<and>
     ((\<forall>r\<in>set (actuals fd). \<not> (date r = ts \<and> lower (category r) = ''revenue'' \<and> entity_matches ent r))
        \<longrightarrow> actual_usd res = 0) \<and>
     ((\<forall>r\<in>set (budget fd). \<not> (date r = ts \<and> lower (category r) = ''revenue'' \<and> entity_matches ent r))
        \<longrightarrow> budget_usd res = 0)"
proof -
  have nil: "by_entity ent (filter (is_category ts ''revenue'') df) = []"
    if "\<forall>r\<in>set df. \<not> (date r = ts \<and> lower (category r) = ''revenue'' \<and> entity_matches ent r)"
    for df :: "amount_row list"
    unfolding by_entity_filter using that by (auto simp: filter_empty_conv is_category_def)
  have "revenue_vs_budget parse fd m ent =
      Inr \<lparr>rvb_month = ts,
           actual_usd = usd_sum fd (by_entity ent (filter (is_category ts ''revenue'') (actuals fd))),
           budget_usd = usd_sum fd (by_entity ent (filter (is_category ts ''revenue'') (budget fd)))\<rparr>"
    using assms by (simp add: revenue_vs_budget_def)
  then show ?thesis
    using nil [of "actuals fd"] nil [of "budget fd"] by (simp add: usd_sum_Nil)
qed

theorem revenue_vs_budget_no_rows_witness:
  "month_str_to_ts sample_parse ''2025-05'' = Inr 24304 \<and>
   (\<exists>res. revenue_vs_budget sample_parse sample_fd ''2025-05'' None = Inr res \<and>
      actual_usd res = 0 \<and> budget_usd res = 0)"
proof -
  have h: "month_str_to_ts sample_parse ''2025-05'' = Inr 24304" by code_simp
  have a: "\<forall>r\<in>set (actuals sample_fd).
      \<not> (date r = 24304 \<and> lower (category r) = ''revenue'' \<and> entity_matches None r)"
    by code_simp
  have b: "\<forall>r\<in>set (budget sample_fd).
      \<not> (date r = 24304 \<and> lower (category r) = ''revenue'' \<and> entity_matches None r)"
    by code_simp
  from revenue_vs_budget_no_rows [OF h, of sample_fd None] a b
  have "\<exists>res. revenue_vs_budget sample_parse sample_fd ''2025-05'' None = Inr res \<and>
      actual_usd res = 0 \<and> budget_usd res = 0"
    by blast
  with h show ?thesis by (rule conjI)
qed

subsection \<open>Sums over groups and sorted rows\<close>

lemma sum_list_insort_key:
  "sum_list (map f (insort_key g x xs)) = f x + sum_list (map f xs)"
  for f :: "'a \<Rightarrow> real"
  by (induction xs) simp_all

lemma sum_list_sort_key: "sum_list (map f (sort_key g xs)) = sum_list (map f xs)"
  for f :: "'a \<Rightarrow> real"
  by (induction xs) (simp_all add: sum_list_insort_key)

lemma sum_list_indicator:
  "distinct ks \<Longrightarrow>
   sum_list (map (\<lambda>k. if y = k then (v::real) else 0) ks) = (if y \<in> set ks then v else 0)"
  by (induction ks) auto

text \<open>Summing group by group, over keys that cover the rows once, is summing the rows.\<close>

lemma sum_list_groups:
  fixes f :: "'a \<Rightarrow> real"
  assumes "distinct ks"
  shows "set (map g xs) \<subseteq> set ks \<Longrightarrow>
     sum_list (map (\<lambda>k. sum_list (map f (filter (\<lambda>x. g x = k) xs))) ks) = sum_list (map f xs)"
proof (induction xs)
  case Nil
  then show ?case by simp
next
  case (Cons x xs)
  have "sum_list (map (\<lambda>k. sum_list (map f (filter (\<lambda>x. g x = k) (x # xs)))) ks)
      = sum_list (map (\<lambda>k. (if g x = k then f x else 0)
            + sum_list (map f (filter (\<lambda>x. g x = k) xs))) ks)"
    by (intro arg_cong [where f = sum_list] map_cong) auto
  also have "\<dots> = sum_list (map (\<lambda>k. if g x = k then f x else 0) ks)
      + sum_list (map (\<lambda>k. sum_list (map f (filter (\<lambda>x. g x = k) xs))) ks)"
    by (simp add: sum_list_addf)
  also have "\<dots> = f x + sum_list (map f xs)"
    using Cons assms by (simp add: sum_list_indicator)
  finally show ?case by simp
qed

lemma groupby_sum_total:
  "sum_list (map total_usd (groupby_sum rows)) = sum_skipna (map amount_usd rows)"
proof -
  have "sum_list (map total_usd (groupby_sum rows))
      = sum_list (map (\<lambda>k. sum_list (map (\<lambda>r. nan_to_zero (amount_usd r))
            (filter (\<lambda>r. category (src r) = k) rows)))
          (sort (remdups (map (\<lambda>r. category (src r)) rows))))"
    by (simp add: groupby_sum_def sum_skipna_def comp_def)
  also have "\<dots> = sum_list (map (\<lambda>r. nan_to_zero (amount_usd r)) rows)"
    by (rule sum_list_groups) simp_all
  finally show ?thesis by (simp add: sum_skipna_def comp_def)
qed

lemma sorted_desc_sort_values:
  "sorted_wrt (\<lambda>a b. b \<le> a) (map total_usd (sort_values_desc rows))"
proof -
  have "sorted (map (\<lambda>r. - total_usd r) (sort_values_desc rows))"
    unfolding sort_values_desc_def by (rule sorted_sort_key)
  then show ?thesis
    by (simp add: sorted_wrt_map)
qed

lemma opex_rows_total:
  "sum_list (map total_usd (sort_values_desc (groupby_sum (amounts_to_usd fd df)))) = usd_sum fd df"
  by (simp add: sort_values_desc_def sum_list_sort_key groupby_sum_total usd_sum_def)

subsection \<open>Opex breakdown\<close>

text \<open>
  Claim C4. When the month resolves, the rows of \<open>opex_breakdown\<close> are in descending order
  of their USD amount, and their amounts add up to the USD sum of the actuals rows of that
  month whose lower-cased category contains "opex" or "operating" and which pass the
  entity filter.
\<close>

theorem opex_breakdown_sorted_total:
  assumes "month_str_to_ts parse m = Inr ts"
  shows "\<exists>rows. opex_breakdown parse fd m ent = Inr rows \<and>
     sorted_wrt (\<lambda>a b. b \<le> a) (map total_usd rows) \<and>
     sum_list (map total_usd rows) =
       usd_sum fd (filter (\<lambda>r. date r = ts \<and>
            (contains (lower (category r)) ''opex'' \<or> contains (lower (category r)) ''operating'') \<and>
            entity_matches ent r) (actuals fd))"
proof -
  let ?sel = "by_entity ent (filter (is_opex ts) (actuals fd))"
  have sel: "?sel = filter (\<lambda>r. date r = ts \<and>
            (contains (lower (category r)) ''opex'' \<or> contains (lower (category r)) ''operating'') \<and>
            entity_matches ent r) (actuals fd)"
    unfolding by_entity_filter by (auto simp: is_opex_def intro: filter_cong)
  have "opex_breakdown parse fd m ent = Inr (sort_values_desc (groupby_sum (amounts_to_usd fd ?sel)))"
    using assms by (simp add: opex_breakdown_def)
  then show ?thesis
    using sorted_desc_sort_values opex_rows_total [of fd ?sel] unfolding sel by blast
qed

theorem opex_breakdown_sorted_total_witness:
  "month_str_to_ts sample_parse ''June 2025'' = Inr 24305 \<and>
   (\<exists>rows. opex_breakdown sample_parse sample_fd ''June 2025'' None = Inr rows \<and>
      sorted_wrt (\<lambda>a b. b \<le> a) (map total_usd rows) \<and>
      sum_list (map total_usd rows) = 44500)"
proof -
  have h: "month_str_to_ts sample_parse ''June 2025'' = Inr 24305" by code_simp
  have v: "usd_sum sample_fd (filter (\<lambda>r. date r = 24305 \<and>
            (contains (lower (category r)) ''opex'' \<or> contains (lower (category r)) ''operating'') \<and>
            entity_matches None r) (actuals sample_fd)) = 44500"
    by code_simp
  from opex_breakdown_sorted_total [OF h, of sample_fd None]
  have "\<exists>rows. opex_breakdown sample_parse sample_fd ''June 2025'' None = Inr rows \<and>
      sorted_wrt (\<lambda>a b. b \<le> a) (map total_usd rows) \<and>
      sum_list (map total_usd rows) = 44500"
    unfolding v .
  with h show ?thesis by (rule conjI)
qed

subsection \<open>EBITDA proxy\<close>

text \<open>
  Claim C5. When the month resolves, \<open>ebitda_proxy\<close>, \<open>revenue_vs_budget\<close> and
  \<open>opex_breakdown\<close> all return for the same month and entity, the EBITDA is revenue minus
  COGS minus opex, the revenue is the \<open>actual_usd\<close> of \<open>revenue_vs_budget\<close>, and the opex is
  the sum of the amounts of the rows of \<open>opex_breakdown\<close>.
\<close>

theorem ebitda_proxy_components:
  assumes "month_str_to_ts parse m = Inr ts"
  shows "\<exists>e r rows. ebitda_proxy parse fd m ent = Inr e \<and>
     revenue_vs_budget parse fd m ent = Inr r \<and>
     opex_breakdown parse fd m ent = Inr rows \<and>
     ebitda_usd e = revenue_usd e - cogs_usd e - opex_usd e \<and>
     revenue_usd e = actual_usd r \<and>
     opex_usd e = sum_list (map total_usd rows)"
  using assms
  by (simp add: ebitda_proxy_def revenue_vs_budget_def opex_breakdown_def Let_def opex_rows_total)

theorem ebitda_proxy_components_witness:
  "month_str_to_ts sample_parse ''2025-06'' = Inr 24305 \<and>
   (\<exists>e r rows. ebitda_proxy sample_parse sample_fd ''2025-06'' (Some ''EU'') = Inr e \<and>
     revenue_vs_budget sample_parse sample_fd ''2025-06'' (Some ''EU'') = Inr r \<and>
     opex_breakdown sample_parse sample_fd ''2025-06'' (Some ''EU'') = Inr rows \<and>
     ebitda_usd e = revenue_usd e - cogs_usd e - opex_usd e \<and>
     revenue_usd e = actual_usd r \<and>
     opex_usd e = sum_list (map total_usd rows))"
proof -
  have h: "month_str_to_ts sample_parse ''2025-06'' = Inr 24305" by code_simp
  from h ebitda_proxy_components [OF h, of sample_fd "Some ''EU''"]
  show ?thesis by (rule conjI)
qed

subsection \<open>Conversion to USD\<close>

lemma fx_has_key_loc: "fx_has_key t d c \<longleftrightarrow> (\<exists>v. loc t d c = Inr v)"
proof (cases "map_of t c")
  case None
  then show ?thesis by (simp add: fx_has_key_def loc_def)
next
  case (Some col)
  have "d \<in> fst ` set col \<longleftrightarrow> map_of col d \<noteq> None"
    by (simp add: map_of_eq_None_iff)
  with Some show ?thesis
    by (auto simp: fx_has_key_def loc_def split: option.splits)
qed

lemma map_fst_ffill_from: "map fst (ffill_from p xs) = map fst xs"
  by (induction p xs rule: ffill_from.induct) simp_all

lemma map_fst_fill: "map fst (bfill (ffill xs)) = map fst xs"
  by (simp add: bfill_def ffill_def map_fst_ffill_from rev_map [symmetric])

lemma map_of_tabulate:
  "map_of (map (\<lambda>k. (k, f k)) ks) k = (if k \<in> set ks then Some (f k) else None)"
  by (induction ks) auto

text \<open>
  The keys of the table built by \<^verbatim>\<open>__init__\<close>: a month of some FX row with a currency of
  some FX row.
\<close>

lemma build_fx_map_keys:
  assumes "build_fx_map fx = Inr t"
  shows "fx_has_key t d c \<longleftrightarrow> d \<in> fx_date ` set fx \<and> c \<in> fx_currency ` set fx"
proof -
  let ?fx = "sort_key fx_date fx"
  let ?idx = "sort (remdups (map fx_date ?fx))"
  let ?col = "\<lambda>c. bfill (ffill (map (\<lambda>d. (d, fx_cell ?fx d c)) ?idx))"
  have t: "t = map (\<lambda>c. (c, ?col c)) (sort (remdups (map fx_currency ?fx)))"
    using assms by (auto simp: build_fx_map_def pivot_def comp_def split: if_splits)
  have "map_of t c = (if c \<in> fx_currency ` set fx then Some (?col c) else None)"
    unfolding t map_of_tabulate by simp
  moreover have "fst ` set (?col c) = fx_date ` set fx"
  proof -
    have "fst ` set (?col c) = set (map fst (?col c))" by simp
    also have "\<dots> = fx_date ` set fx"
      unfolding map_fst_fill by (simp add: comp_def)
    finally show ?thesis .
  qed
  ultimately show ?thesis
    by (simp add: fx_has_key_def)
qed

lemma lookup_rate_cases:
  "(case cur of
      None \<Rightarrow> lookup_rate t d cur = Some 1
    | Some c \<Rightarrow>
        (if fx_has_key t d c then loc t d c = Inr (lookup_rate t d cur)
         else lookup_rate t d cur = Some 1))"
  by (auto simp: lookup_rate_def fx_has_key_loc split: option.splits sum.splits)

text \<open>
  Claim C7. \<open>to_usd\<close> converts every record and fails on none: the result has one row per
  input row, in order. In each row, when the key (month, currency) is in the FX table the
  rate is the value the table holds there; when it is not, or the frame has no currency
  column, the rate is 1.0, whatever the currency, USD included. The USD amount is the amount
  times that rate.
\<close>

theorem to_usd_rate:
  "map src (to_usd t amount_col currency_col df) = df \<and>
   (\<forall>x\<in>set (to_usd t amount_col currency_col df).
      (case currency_col (src x) of
         None \<Rightarrow> usd_rate x = Some 1
       | Some c \<Rightarrow>
           (if fx_has_key t (date (src x)) c then loc t (date (src x)) c = Inr (usd_rate x)
            else usd_rate x = Some 1)) \<and>
      amount_usd x = nan_mul (Some (amount_col (src x))) (usd_rate x))"
proof (intro conjI ballI)
  show "map src (to_usd t amount_col currency_col df) = df"
    by (simp add: to_usd_def comp_def)
next
  fix x assume "x \<in> set (to_usd t amount_col currency_col df)"
  then obtain r where x: "x = \<lparr>src = r, usd_rate = lookup_rate t (date r) (currency_col r),
      amount_usd = nan_mul (Some (amount_col r)) (lookup_rate t (date r) (currency_col r))\<rparr>"
    by (auto simp: to_usd_def)
  show "case currency_col (src x) of
         None \<Rightarrow> usd_rate x = Some 1
       | Some c \<Rightarrow>
           (if fx_has_key t (date (src x)) c then loc t (date (src x)) c = Inr (usd_rate x)
            else usd_rate x = Some 1)"
    using lookup_rate_cases [where cur = "currency_col r" and t = t and d = "date r"]
    by (auto simp: x split: option.splits if_splits)
  show "amount_usd x = nan_mul (Some (amount_col (src x))) (usd_rate x)"
    by (simp add: x)
qed

text \<open>
  On the sample: a EUR row of June 2025 is in the table at 1.2, a GBP row is not and is
  converted at 1.0.
\<close>

theorem to_usd_rate_witness:
  "(\<lparr>src = \<lparr>date = 24305, entity = ''EU'', category = ''Opex:Sales'', currency = ''EUR'',
            amount = 20000\<rparr>,
     usd_rate = Some (6/5), amount_usd = Some 24000\<rparr>
      \<in> set (to_usd sample_fx_map amount (\<lambda>r. Some (currency r)) (actuals sample_fd)) \<and>
    fx_has_key sample_fx_map 24305 ''EUR'' \<and>
    loc sample_fx_map 24305 ''EUR'' = Inr (Some (6/5))) \<and>
   (\<lparr>src = \<lparr>date = 24305, entity = ''EU'', category = ''Opex:Marketing'', currency = ''GBP'',
            amount = 500\<rparr>,
     usd_rate = Some 1, amount_usd = Some 500\<rparr>
      \<in> set (to_usd sample_fx_map amount (\<lambda>r. Some (currency r)) (actuals sample_fd)) \<and>
    \<not> fx_has_key sample_fx_map 24305 ''GBP'')"
proof -
  let ?out = "to_usd sample_fx_map amount (\<lambda>r. Some (currency r)) (actuals sample_fd)"
  let ?eur = "\<lparr>date = 24305, entity = ''EU'', category = ''Opex:Sales'', currency = ''EUR'',
      amount = 20000\<rparr>"
  let ?gbp = "\<lparr>date = 24305, entity = ''EU'', category = ''Opex:Marketing'', currency = ''GBP'',
      amount = 500\<rparr>"
  have all: "\<forall>x\<in>set ?out.
      (case Some (currency (src x)) of
         None \<Rightarrow> usd_rate x = Some 1
       | Some c \<Rightarrow>
           (if fx_has_key sample_fx_map (date (src x)) c
            then loc sample_fx_map (date (src x)) c = Inr (usd_rate x)
            else usd_rate x = Some 1)) \<and>
      amount_usd x = nan_mul (Some (amount (src x))) (usd_rate x)"
    using to_usd_rate [of sample_fx_map amount "\<lambda>r. Some (currency r)" "actuals sample_fd"]
    by (rule conjunct2)
  have k1: "fx_has_key sample_fx_map 24305 ''EUR''" by code_simp
  have k2: "\<not> fx_has_key sample_fx_map 24305 ''GBP''" by code_simp
  have src1: "?eur \<in> src ` set ?out" and src2: "?gbp \<in> src ` set ?out"
    by (simp_all add: to_usd_def sample_fd_def)
  from src1 obtain x where x: "x \<in> set ?out" "src x = ?eur" by auto
  from src2 obtain y where y: "y \<in> set ?out" "src y = ?gbp" by auto
  from bspec [OF all x(1)] k1 have x1: "loc sample_fx_map 24305 ''EUR'' = Inr (usd_rate x)"
    and x2: "amount_usd x = nan_mul (Some 20000) (usd_rate x)"
    by (simp_all add: x(2))
  have l1: "loc sample_fx_map 24305 ''EUR'' = Inr (Some (6/5))" by code_simp
  from x1 l1 have rx: "usd_rate x = Some (6/5)" by simp
  with x2 have ax: "amount_usd x = Some 24000" by (simp add: nan_mul_def)
  from bspec [OF all y(1)] k2 have ry: "usd_rate y = Some 1"
    and y2: "amount_usd y = nan_mul (Some 500) (usd_rate y)"
    by (simp_all add: y(2))
  then have ay: "amount_usd y = Some 500" by (simp add: nan_mul_def)
  have "x = \<lparr>src = ?eur, usd_rate = Some (6/5), amount_usd = Some 24000\<rparr>"
    using x(2) rx ax by (cases x) simp
  moreover have "y = \<lparr>src = ?gbp, usd_rate = Some 1, amount_usd = Some 500\<rparr>"
    using y(2) ry ay by (cases y) simp
  ultimately show ?thesis
    using x(1) y(1) k1 k2 l1 by simp
qed

subsection \<open>Month strings of one calendar month\<close>

text \<open>
  Claim C6. Two month strings that the parser reads as dates of the same year and month
  resolve to the same first-of-month timestamp, whatever the day, and \<open>revenue_vs_budget\<close>
  and \<open>ebitda_proxy\<close> return the same on both.
\<close>

theorem same_month_same_result:
  assumes "parse m1 = Inr d1" and "parse m2 = Inr d2"
    and "year d1 = year d2" and "month d1 = month d2"
  shows "month_str_to_ts parse m1 = month_str_to_ts parse m2 \<and>
     revenue_vs_budget parse fd m1 ent = revenue_vs_budget parse fd m2 ent \<and>
     ebitda_proxy parse fd m1 ent = ebitda_proxy parse fd m2 ent"
proof -
  have ts: "month_str_to_ts parse m1 = month_str_to_ts parse m2"
    using assms by (simp add: month_str_to_ts_def)
  then show ?thesis
    by (simp add: revenue_vs_budget_def ebitda_proxy_def)
qed

theorem same_month_same_result_witness:
  "sample_parse ''June 2025'' = Inr \<lparr>year = 2025, month = 6, day = 1\<rparr> \<and>
   sample_parse ''2025-06-15'' = Inr \<lparr>year = 2025, month = 6, day = 15\<rparr> \<and>
   month_str_to_ts sample_parse ''June 2025'' = month_str_to_ts sample_parse ''2025-06-15'' \<and>
   revenue_vs_budget sample_parse sample_fd ''June 2025'' None =
     revenue_vs_budget sample_parse sample_fd ''2025-06-15'' None \<and>
   ebitda_proxy sample_parse sample_fd ''June 2025'' None =
     ebitda_proxy sample_parse sample_fd ''2025-06-15'' None"
proof -
  have h1: "sample_parse ''June 2025'' = Inr \<lparr>year = 2025, month = 6, day = 1\<rparr>"
    by (simp add: sample_parse_def)
  have h2: "sample_parse ''2025-06-15'' = Inr \<lparr>year = 2025, month = 6, day = 15\<rparr>"
    by (simp add: sample_parse_def)
  have y: "year \<lparr>year = 2025, month = 6, day = 1\<rparr> = year \<lparr>year = 2025, month = 6, day = 15\<rparr>"
    by simp
  have mo: "month \<lparr>year = 2025, month = 6, day = 1\<rparr> = month \<lparr>year = 2025, month = 6, day = 15\<rparr>"
    by simp
  from h1 h2 same_month_same_result [OF h1 h2 y mo, of sample_fd None]
  show ?thesis by blast
qed

subsection \<open>Gross margin trend\<close>







text \<open>
  Claim C3. Whenever the end month resolves, \<open>gross_margin_trend\<close> returns rows (a zero
  revenue raises nothing). In every row the two sums are the USD sums of the month's
  revenue and COGS rows, the margin is null exactly when the revenue sum is 0, and
  otherwise it is (revenue - cogs) / revenue, negative when COGS exceed revenue.
\<close>

theorem gross_margin_pct_null_iff:
  assumes "resolve_month parse (actuals fd) end_month = Inr ts"
  shows "\<exists>rows. gross_margin_trend parse fd n end_month = Inr rows \<and>
     (\<forall>r\<in>set rows.
        revenue_usd r =
          usd_sum fd (filter (\<lambda>a. date a = gm_date r \<and> lower (category a) = ''revenue'') (actuals fd)) \<and>
        cogs_usd r =
          usd_sum fd (filter (\<lambda>a. date a = gm_date r \<and> lower (category a) = ''cogs'') (actuals fd)) \<and>
        (gross_margin_pct r = None \<longleftrightarrow> revenue_usd r = 0) \<and>
        (revenue_usd r \<noteq> 0 \<longrightarrow>
           gross_margin_pct r = Some ((revenue_usd r - cogs_usd r) / revenue_usd r)))"
proof -
  have "gross_margin_trend parse fd n end_month = Inr (map (gm_row_of fd) (period_range ts n))"
    using assms by (simp add: gross_margin_trend_def)
  moreover have "revenue_usd r =
          usd_sum fd (filter (\<lambda>a. date a = gm_date r \<and> lower (category a) = ''revenue'') (actuals fd)) \<and>
        cogs_usd r =
          usd_sum fd (filter (\<lambda>a. date a = gm_date r \<and> lower (category a) = ''cogs'') (actuals fd)) \<and>
        (gross_margin_pct r = None \<longleftrightarrow> revenue_usd r = 0) \<and>
        (revenue_usd r \<noteq> 0 \<longrightarrow>
           gross_margin_pct r = Some ((revenue_usd r - cogs_usd r) / revenue_usd r))"
    if "r = gm_row_of fd d" for r d
    unfolding that by (simp add: gm_row_of_def Let_def is_category_def [abs_def])
  ultimately show ?thesis by auto
qed

text \<open>
  On the sample: April 2025 has COGS above revenue (margin -1/2), May 2025 has no revenue
  (null margin).
\<close>

theorem gross_margin_pct_null_iff_witness:
  "resolve_month sample_parse (actuals sample_fd) (Some ''2025-06'') = Inr 24305 \<and>
   (\<exists>rows. gross_margin_trend sample_parse sample_fd 3 (Some ''2025-06'') = Inr rows \<and>
     rows =
       [\<lparr>revenue_usd = 100, cogs_usd = 150, gm_date = 24303, gross_margin_pct = Some (- (1/2))\<rparr>,
        \<lparr>revenue_usd = 0, cogs_usd = 100, gm_date = 24304, gross_margin_pct = None\<rparr>,
        \<lparr>revenue_usd = 121200, cogs_usd = 48000, gm_date = 24305, gross_margin_pct = Some (61/101)\<rparr>] \<and>
     (\<forall>r\<in>set rows.
        revenue_usd r =
          usd_sum sample_fd
            (filter (\<lambda>a. date a = gm_date r \<and> lower (category a) = ''revenue'') (actuals sample_fd)) \<and>
        cogs_usd r =
          usd_sum sample_fd
            (filter (\<lambda>a. date a = gm_date r \<and> lower (category a) = ''cogs'') (actuals sample_fd)) \<and>
        (gross_margin_pct r = None \<longleftrightarrow> revenue_usd r = 0) \<and>
        (revenue_usd r \<noteq> 0 \<longrightarrow>
           gross_margin_pct r = Some ((revenue_usd r - cogs_usd r) / revenue_usd r))))"
proof -
  have h: "resolve_month sample_parse (actuals sample_fd) (Some ''2025-06'') = Inr 24305"
    by code_simp
  have ev: "gross_margin_trend sample_parse sample_fd 3 (Some ''2025-06'') =
     Inr [\<lparr>revenue_usd = 100, cogs_usd = 150, gm_date = 24303, gross_margin_pct = Some (- (1/2))\<rparr>,
          \<lparr>revenue_usd = 0, cogs_usd = 100, gm_date = 24304, gross_margin_pct = None\<rparr>,
          \<lparr>revenue_usd = 121200, cogs_usd = 48000, gm_date = 24305, gross_margin_pct = Some (61/101)\<rparr>]"
    by code_simp
  from gross_margin_pct_null_iff [OF h, of 3] obtain rows where
    r: "gross_margin_trend sample_parse sample_fd 3 (Some ''2025-06'') = Inr rows" and
    p: "\<forall>r\<in>set rows.
        revenue_usd r =
          usd_sum sample_fd
            (filter (\<lambda>a. date a = gm_date r \<and> lower (category a) = ''revenue'') (actuals sample_fd)) \<and>
        cogs_usd r =
          usd_sum sample_fd
            (filter (\<lambda>a. date a = gm_date r \<and> lower (category a) = ''cogs'') (actuals sample_fd)) \<and>
        (gross_margin_pct r = None \<longleftrightarrow> revenue_usd r = 0) \<and>
        (revenue_usd r \<noteq> 0 \<longrightarrow>
           gross_margin_pct r = Some ((revenue_usd r - cogs_usd r) / revenue_usd r))"
    by blast
  from r ev have eq: "rows =
       [\<lparr>revenue_usd = 100, cogs_usd = 150, gm_date = 24303, gross_margin_pct = Some (- (1/2))\<rparr>,
        \<lparr>revenue_usd = 0, cogs_usd = 100, gm_date = 24304, gross_margin_pct = None\<rparr>,
        \<lparr>revenue_usd = 121200, cogs_usd = 48000, gm_date = 24305, gross_margin_pct = Some (61/101)\<rparr>]"
    by (simp only: sum.inject)
  show ?thesis
    apply (rule conjI [OF h])
    apply (rule exI [of _ rows])
    apply (rule conjI [OF r])
    apply (rule conjI [OF eq])
    apply (rule p)
    done
qed

subsection \<open>Cash runway\<close>

lemma find_map: "find P (map f xs) = map_option f (find (P \<circ> f) xs)"
  by (induction xs) auto

lemma find_Some_holds: "find P xs = Some x \<Longrightarrow> P x"
  by (induction xs) (auto split: if_splits)

lemma row_balance_find:
  "row_balance_usd (find (\<lambda>r. date (src r) = m)
       (to_usd (fx_map fd) cash_balance cash_currency (by_entity ent (cash fd)))) =
   month_balance_usd fd ent m"
proof (cases "find (\<lambda>r. date r = m) (by_entity ent (cash fd))")
  case None
  then show ?thesis
    by (simp add: to_usd_def find_map comp_def row_balance_usd_def month_balance_usd_def)
next
  case (Some r)
  then have "date r = m" by (rule find_Some_holds)
  with Some show ?thesis
    by (simp add: to_usd_def find_map comp_def row_balance_usd_def month_balance_usd_def)
qed

text \<open>After the two fills a window of three is all numbers or all NaN.\<close>

lemma fill3:
  "\<exists>b0 b1 b2. bfill (ffill [(k0, a0), (k1, a1), (k2, a2 :: nanfloat)]) = [(k0, b0), (k1, b1), (k2, b2)] \<and>
     (b0 = None \<longleftrightarrow> b2 = None) \<and> (b1 = None \<longleftrightarrow> b2 = None)"
  by (cases a0; cases a1; cases a2) (simp_all add: bfill_def ffill_def)

lemma cash_runway_months_eq:
  assumes r: "resolve_month parse (cash fd) as_of_month = Inr ts"
    and d: "distinct (map date (by_entity ent (cash fd)))"
    and f: "bfill (ffill [(ts - 2, month_balance_usd fd ent (ts - 2)),
                   (ts - 1, month_balance_usd fd ent (ts - 1)),
                   (ts, month_balance_usd fd ent ts)]) = [(ts - 2, b0), (ts - 1, b1), (ts, b2)]"
  shows "cash_runway_months parse fd as_of_month ent =
     Inr \<lparr>as_of = ts, current_cash_usd = b2,
          avg_monthly_burn_usd =
            (case mean (dropna [nan_sub b0 b1, nan_sub b1 b2]) of None \<Rightarrow> 0 | Some b \<Rightarrow> b),
          runway_months =
            (case mean (dropna [nan_sub b0 b1, nan_sub b1 b2]) of
               None \<Rightarrow> PosInf
             | Some b \<Rightarrow> if b \<le> 0 then PosInf
                         else (case b2 of None \<Rightarrow> NaN | Some c \<Rightarrow> Fin (c / b)))\<rparr>"
proof -
  let ?c = "to_usd (fx_map fd) cash_balance cash_currency (by_entity ent (cash fd))"
  have pr: "period_range ts 3 = [ts - 2, ts - 1, ts]"
    by (simp add: period_range_def upto_rec1)
  have dd: "distinct (map (\<lambda>r. date (src r)) ?c)"
    using d by (simp add: to_usd_def comp_def)
  have re: "reindex ?c [ts - 2, ts - 1, ts] =
      Inr (map (\<lambda>m. find (\<lambda>r. date (src r) = m) ?c) [ts - 2, ts - 1, ts])"
    using dd by (simp add: reindex_def)
  have dn: "dropna (None # xs) = dropna xs" for xs
    by (simp add: dropna_def List.map_filter_simps)
  have nn: "nan_sub None x = None" for x
    by (simp add: nan_sub_def)
  have bal: "map snd (bfill (ffill (zip [ts - 2, ts - 1, ts]
      (map row_balance_usd (map (\<lambda>m. find (\<lambda>r. date (src r) = m) ?c) [ts - 2, ts - 1, ts]))))) =
      [b0, b1, b2]"
    by (simp add: row_balance_find f)
  show ?thesis
    unfolding cash_runway_months_def r pr Let_def sum.case re bal
    by (simp add: shift1_def dn nn cong: option.case_cong if_cong)
qed

text \<open>
  The runway when the cash rows that pass the entity filter have one row per month. For
  a resolved month \<open>ts\<close>, \<open>cash_runway_months\<close> returns a result; the balances \<open>b0\<close>,
  \<open>b1\<close>, \<open>b2\<close> of the three months ending at \<open>ts\<close> are the months' USD balances filled
  forward then backward, all numbers or all NaN; the current cash is \<open>b2\<close>; with numbers
  the average burn is the mean of the two declines \<open>b0 - b1\<close> and \<open>b1 - b2\<close>, the runway
  is \<open>b2\<close> over the average when the average is positive and infinite when it is zero or
  negative; when every slot is NaN the average is reported as 0 and the runway is
  infinite.
\<close>

theorem cash_runway_formula:
  assumes r: "resolve_month parse (cash fd) as_of_month = Inr ts"
    and d: "distinct (map date (by_entity ent (cash fd)))"
  shows "\<exists>res b0 b1 b2.
     cash_runway_months parse fd as_of_month ent = Inr res \<and> as_of res = ts \<and>
     bfill (ffill [(ts - 2, month_balance_usd fd ent (ts - 2)),
                   (ts - 1, month_balance_usd fd ent (ts - 1)),
                   (ts, month_balance_usd fd ent ts)]) = [(ts - 2, b0), (ts - 1, b1), (ts, b2)] \<and>
     current_cash_usd res = b2 \<and>
     (b0 = None \<longleftrightarrow> b2 = None) \<and> (b1 = None \<longleftrightarrow> b2 = None) \<and>
     (\<forall>x0 x1 x2. b0 = Some x0 \<and> b1 = Some x1 \<and> b2 = Some x2 \<longrightarrow>
        avg_monthly_burn_usd res = ((x0 - x1) + (x1 - x2)) / 2 \<and>
        (0 < avg_monthly_burn_usd res \<longrightarrow> runway_months res = Fin (x2 / avg_monthly_burn_usd res)) \<and>
        (avg_monthly_burn_usd res \<le> 0 \<longrightarrow> runway_months res = PosInf)) \<and>
     (b2 = None \<longrightarrow> avg_monthly_burn_usd res = 0 \<and> runway_months res = PosInf)"
proof -
  obtain b0 b1 b2 where
    f: "bfill (ffill [(ts - 2, month_balance_usd fd ent (ts - 2)),
                   (ts - 1, month_balance_usd fd ent (ts - 1)),
                   (ts, month_balance_usd fd ent ts)]) = [(ts - 2, b0), (ts - 1, b1), (ts, b2)]"
    and n0: "b0 = None \<longleftrightarrow> b2 = None" and n1: "b1 = None \<longleftrightarrow> b2 = None"
    using fill3 [of "ts - 2" "month_balance_usd fd ent (ts - 2)" "ts - 1"
        "month_balance_usd fd ent (ts - 1)" ts "month_balance_usd fd ent ts"]
    by (elim exE conjE)
  note eq = cash_runway_months_eq [OF r d f]
  show ?thesis
  proof (cases b2)
    case None
    with n0 n1 have z: "b0 = None" "b1 = None" by simp_all
    have eq': "cash_runway_months parse fd as_of_month ent =
        Inr \<lparr>as_of = ts, current_cash_usd = None, avg_monthly_burn_usd = 0, runway_months = PosInf\<rparr>"
      unfolding eq by (simp add: None z nan_sub_def dropna_def mean_def List.map_filter_simps)
    show ?thesis
      apply (rule exI [of _ "\<lparr>as_of = ts, current_cash_usd = None, avg_monthly_burn_usd = 0,
                runway_months = PosInf\<rparr>"])
      apply (rule exI [of _ b0], rule exI [of _ b1], rule exI [of _ b2])
      apply (simp add: eq' f None z)
      done
  next
    case (Some x2)
    with n0 n1 obtain x0 x1 where x: "b0 = Some x0" "b1 = Some x1" by auto
    let ?avg = "((x0 - x1) + (x1 - x2)) / 2"
    have eq': "cash_runway_months parse fd as_of_month ent =
        Inr \<lparr>as_of = ts, current_cash_usd = Some x2, avg_monthly_burn_usd = ?avg,
             runway_months = (if ?avg \<le> 0 then PosInf else Fin (x2 / ?avg))\<rparr>"
      unfolding eq by (simp add: Some x nan_sub_def dropna_def mean_def List.map_filter_simps)
    show ?thesis
      apply (rule exI [of _ "\<lparr>as_of = ts, current_cash_usd = Some x2, avg_monthly_burn_usd = ?avg,
             runway_months = (if ?avg \<le> 0 then PosInf else Fin (x2 / ?avg))\<rparr>"])
      apply (rule exI [of _ b0], rule exI [of _ b1], rule exI [of _ b2])
      apply (simp add: eq' f Some x)
      done
  qed
qed

text \<open>
  On the sample the balances of April, May and June 2025 are 300, 250 and 200: the
  average burn is 50 and the runway 4 months.
\<close>

theorem cash_runway_formula_witness:
  "resolve_month sample_parse (cash sample_fd) (Some ''2025-06'') = Inr 24305 \<and>
   distinct (map date (by_entity None (cash sample_fd))) \<and>
   cash_runway_months sample_parse sample_fd (Some ''2025-06'') None =
     Inr \<lparr>as_of = 24305, current_cash_usd = Some 200, avg_monthly_burn_usd = 50,
          runway_months = Fin 4\<rparr>"
proof -
  have h1: "resolve_month sample_parse (cash sample_fd) (Some ''2025-06'') = Inr 24305"
    by code_simp
  have h2: "distinct (map date (by_entity None (cash sample_fd)))"
    by code_simp
  have f: "bfill (ffill [((24305::int) - 2, month_balance_usd sample_fd None (24305 - 2)),
                   (24305 - 1, month_balance_usd sample_fd None (24305 - 1)),
                   (24305, month_balance_usd sample_fd None 24305)]) =
      [(24305 - 2, Some 300), (24305 - 1, Some 250), (24305, Some 200)]"
    by code_simp
  from cash_runway_formula [OF h1 h2] obtain res b0 b1 b2 where
    e: "cash_runway_months sample_parse sample_fd (Some ''2025-06'') None = Inr res" and
    a: "as_of res = 24305" and
    b: "bfill (ffill [((24305::int) - 2, month_balance_usd sample_fd None (24305 - 2)),
                   (24305 - 1, month_balance_usd sample_fd None (24305 - 1)),
                   (24305, month_balance_usd sample_fd None 24305)]) =
      [(24305 - 2, b0), (24305 - 1, b1), (24305, b2)]" and
    c: "current_cash_usd res = b2" and
    v: "\<forall>x0 x1 x2. b0 = Some x0 \<and> b1 = Some x1 \<and> b2 = Some x2 \<longrightarrow>
        avg_monthly_burn_usd res = ((x0 - x1) + (x1 - x2)) / 2 \<and>
        (0 < avg_monthly_burn_usd res \<longrightarrow> runway_months res = Fin (x2 / avg_monthly_burn_usd res)) \<and>
        (avg_monthly_burn_usd res \<le> 0 \<longrightarrow> runway_months res = PosInf)"
    by (elim exE conjE)
  from b f have bs: "b0 = Some 300" "b1 = Some 250" "b2 = Some 200"
    by simp_all
  from v bs have avg: "avg_monthly_burn_usd res = 50" by simp
  from v bs avg have run: "runway_months res = Fin 4" by simp
  from a c bs avg run have
    "res = \<lparr>as_of = 24305, current_cash_usd = Some 200, avg_monthly_burn_usd = 50,
          runway_months = Fin 4\<rparr>"
    by simp
  with e h1 h2 show ?thesis by simp
qed

text \<open>
  Two selected cash rows of one month make \<open>reindex\<close> raise, whatever the resolved
  month.
\<close>

lemma cash_runway_duplicates_raise:
  assumes "resolve_month parse (cash fd) as_of_month = Inr ts"
    and "\<not> distinct (map date (by_entity ent (cash fd)))"
  shows "cash_runway_months parse fd as_of_month ent = Inl ValueError"
proof -
  have "period_range ts 3 \<noteq> []"
    by (simp add: period_range_def upto_rec1)
  with assms show ?thesis
    by (simp add: cash_runway_months_def reindex_def to_usd_def comp_def)
qed

text \<open>
  Claim C1. The claim promises, for every dataset snapshot and every resolvable month,
  an average burn over the three months ending at that month and a runway. It fails on
  a cash table that holds a row per entity, asked with no entity as the application
  does: June 2025 resolves and has two rows, and \<open>reindex\<close>, the step meant to ensure
  that all three months exist, raises \<^verbatim>\<open>ValueError\<close>; no runway is returned.
\<close>

theorem cash_runway_duplicate_months:
  "resolve_month sample_parse (cash two_entity_fd) (Some ''2025-06'') = Inr 24305 \<and>
   cash_runway_months sample_parse two_entity_fd (Some ''2025-06'') None = Inl ValueError"
  by code_simp

text \<open>With the entity given the same table has one row per month and a runway.\<close>

lemma cash_runway_one_entity:
  "cash_runway_months sample_parse two_entity_fd None (Some ''EU'') =
     Inr \<lparr>as_of = 24305, current_cash_usd = Some 90, avg_monthly_burn_usd = 0,
          runway_months = PosInf\<rparr>"
  by code_simp

subsection \<open>The classifier\<close>

text \<open>
  Three questions. In the second the month pattern matches first at \<open>was 2025\<close>, three
  letters, a space and four digits, left of the ISO date.
\<close>

lemma classify_gross_margin:
  "classify ''  Show Gross Margin for the last 6 months to June 2025 '' =
     Inr (''gross_margin_trend'', [(''months'', PyInt 6), (''end_month'', PyStr ''june 2025'')])"
  by code_simp

lemma classify_revenue:
  "classify ''What was 2025-06-15 revenue vs budget?'' =
     Inr (''revenue_vs_budget'', [(''month'', PyStr ''was 2025'')])"
  by code_simp

lemma classify_unknown: "classify ''Hello'' = Inr (''unknown'', [])"
  by code_simp

text \<open>When \<open>classify\<close> returns, the intent is one of the six values.\<close>

lemma classify_intent:
  assumes "classify question = Inr (intent, params)"
  shows "intent \<in> {''revenue_vs_budget'', ''gross_margin_trend'', ''opex_breakdown'',
                ''cash_runway'', ''ebitda_proxy'', ''unknown''}"
  using assms by (auto simp: classify_def Let_def split: if_splits sum.splits)

text \<open>
  It raises only in the gross margin branch, and there exactly when the number of
  \<^verbatim>\<open>last N months\<close> has more digits than the interpreter converts.
\<close>

lemma classify_raises_iff:
  "(\<exists>e. classify question = Inl e) \<longleftrightarrow>
     \<not> (contains (strip (lower question)) ''revenue'' \<and> contains (strip (lower question)) ''budget'') \<and>
     (contains (strip (lower question)) ''gross margin'' \<or>
      contains (strip (lower question)) ''gross margin %'' \<or>
      contains (strip (lower question)) ''gross margin percent'') \<and>
     (\<exists>ds. re_search match_last_months (strip (lower question)) = Some ds \<and>
           int_max_str_digits < length ds)"
proof (cases "re_search match_last_months (strip (lower question))")
  case None
  then show ?thesis by (simp add: classify_def Let_def)
next
  case (Some ds)
  then show ?thesis by (simp add: classify_def Let_def int_of_digits_def)
qed

lemma starts_with_append: "starts_with (p @ s) p"
  by (induction p) simp_all

lemma starts_with_contains: "starts_with s p \<Longrightarrow> contains s p"
  by (cases s; cases p) simp_all

lemma contains_hd: "contains s (c # p) \<Longrightarrow> c \<in> set s"
  by (induction s) auto

lemma dropWhile_hd: "xs \<noteq> [] \<Longrightarrow> \<not> P (hd xs) \<Longrightarrow> dropWhile P xs = xs"
  by (cases xs) simp_all

lemma strip_id:
  assumes "s \<noteq> []" and "\<not> is_space (hd s)" and "\<not> is_space (last s)"
  shows "strip s = s"
proof -
  have "dropWhile is_space s = s"
    using assms by (simp add: dropWhile_hd)
  moreover have "dropWhile is_space (rev s) = rev s"
    using assms by (simp add: dropWhile_hd hd_rev)
  ultimately show ?thesis by (simp add: strip_def)
qed

lemma lower_append: "lower (a @ b) = lower a @ lower b"
  by (simp add: lower_def)

lemma lower_replicate: "lower (replicate n c) = replicate n (lower_char c)"
  by (simp add: lower_def)

text \<open>A gross margin question whose number of months has \<open>n\<close> digits, \<open>n\<close> above 4300.\<close>

lemma classify_many_digits:
  assumes n: "4300 < n"
  shows "classify (''gross margin last '' @ replicate n (CHR ''1'') @ '' months'') = Inl ValueError"
proof -
  let ?ds = "replicate n (CHR ''1'')"
  let ?q = "''gross margin last '' @ ?ds @ '' months''"
  have l1: "lower ''gross margin last '' = ''gross margin last ''" by code_simp
  have l2: "lower '' months'' = '' months''" by code_simp
  have l3: "lower_char (CHR ''1'') = CHR ''1''" by code_simp
  have low: "lower ?q = ?q"
    by (simp only: lower_append lower_replicate l1 l2 l3)
  have s1: "\<not> is_space (CHR ''g'')" by code_simp
  have s2: "\<not> is_space (CHR ''s'')" by code_simp
  have str: "strip ?q = ?q"
    by (rule strip_id) (simp_all add: s1 s2)
  have "CHR ''b'' \<notin> set ?q" by simp
  then have nb: "\<not> contains ?q ''budget''"
    using contains_hd by fastforce
  have "?q = ''gross margin'' @ ('' last '' @ ?ds @ '' months'')" by simp
  then have gm: "contains ?q ''gross margin''"
    using starts_with_append starts_with_contains by metis
  have d1: "is_digit (CHR ''1'')" by code_simp
  have d2: "\<not> is_digit (CHR '' '')" by code_simp
  have tw: "takeWhile is_digit (replicate k (CHR ''1'') @ CHR '' '' # r) = replicate k (CHR ''1'')" for k r
    by (induction k) (simp_all add: d1 d2)
  have dw: "dropWhile is_digit (replicate k (CHR ''1'') @ CHR '' '' # r) = CHR '' '' # r" for k r
    by (induction k) (simp_all add: d1 d2)
  have rs: "re_search match_last_months ?q = Some ?ds"
    using n by (simp add: match_last_months_def tw dw)
  show ?thesis
    unfolding classify_def Let_def low str
    by (simp only: nb gm rs simp_thms if_True if_False option.case sum.case
          int_of_digits_def int_max_str_digits_def length_replicate n)
qed

text \<open>
  Claim C10. The claim says that \<open>classify\<close> returns one of the six intents on every
  input string and never raises. On the question \<^verbatim>\<open>gross margin last N months\<close> with a
  number \<open>N\<close> of 4301 digits the \<^verbatim>\<open>int\<close> of the number raises \<^verbatim>\<open>ValueError\<close>
  and \<open>classify\<close> returns no intent.
\<close>

theorem classify_long_number:
  "classify (''gross margin last '' @ replicate 4301 (CHR ''1'') @ '' months'') = Inl ValueError"
  by (rule classify_many_digits) simp

subsection \<open>Loading\<close>

text \<open>A workbook without a required table or column does not load.\<close>

lemma load_missing_fails:
  assumes "\<not> required_present wb"
  shows "\<exists>e. load p wb = Inl e"
proof (cases "load p wb")
  case (Inl e)
  then show ?thesis by blast
next
  case (Inr ld)
  then have "required_present wb"
    by (auto simp: load_def and_then_def required_present_def has_columns_def read_excel_def
          normalise_dates_def coerce_amount_def fx_rows_def
        split: sum.splits option.splits)
  with assms show ?thesis by simp
qed

text \<open>
  In a workbook that loads, the amounts of \<^verbatim>\<open>actuals\<close> are the numbers of the cells, 0
  for a cell that is no number.
\<close>

lemma load_coerces_amounts:
  assumes "load p wb = Inr ld"
  shows "\<exists>sh cells. ws_actuals wb = Some sh \<and> col_amount sh = Some cells \<and>
     col_amount (fr_cols (ld_actuals ld)) =
       Some (map (\<lambda>x. Num (case x of None \<Rightarrow> 0 | Some v \<Rightarrow> v)) (to_numeric p cells))"
  using assms
  by (auto simp: load_def and_then_def read_excel_def normalise_dates_def coerce_amount_def
        coerce_def nan_to_zero_def
      split: sum.splits option.splits)

text \<open>The sample loads; the text \<^verbatim>\<open>n/a\<close> and the blank balance become 0.\<close>

lemma load_sample:
  "load sample_pandas sample_wb =
     Inr \<lparr>ld_actuals =
            \<lparr>fr_date = [24305, 24305],
             fr_cols = amounts_sheet\<lparr>col_month := None, col_amount := Some [Num 120000, Num 0]\<rparr>\<rparr>,
          ld_budget =
            \<lparr>fr_date = [24305, 24305],
             fr_cols = amounts_sheet\<lparr>col_month := None, col_amount := Some [Num 120000, Num 0]\<rparr>\<rparr>,
          ld_cash =
            \<lparr>fr_date = [24304, 24305],
             fr_cols = cash_sheet\<lparr>col_month := None, col_cash_usd := Some [Num 250, Num 0]\<rparr>\<rparr>,
          ld_fx =
            [\<lparr>fx_date = 24303, fx_currency = ''EUR'', fx_usd_rate = Some (11/10)\<rparr>,
             \<lparr>fx_date = 24303, fx_currency = ''USD'', fx_usd_rate = Some 1\<rparr>,
             \<lparr>fx_date = 24305, fx_currency = ''EUR'', fx_usd_rate = Some (6/5)\<rparr>],
          ld_fx_map = sample_fx_map\<rparr>"
  by code_simp

text \<open>
  Claim C9. The claim says that a missing table or column is the only hard failure of
  loading. The workbook \<open>two_rates_wb\<close> has every table and every column, and two EUR
  rates for April 2025: \<^verbatim>\<open>pivot\<close> raises \<^verbatim>\<open>ValueError\<close> and the constructor fails.
\<close>

theorem load_two_rates_fails:
  "required_present two_rates_wb \<and> load sample_pandas two_rates_wb = Inl ValueError"
  by code_simp

end
